theory Spec2Isabelle
  imports Complex_Main
begin

section \<open>Python values and exceptions\<close>

text \<open>
  The module is Python 2 code (the repository's tests import the Python 2 module
  \<^verbatim>\<open>exceptions\<close>). Exceptions are values of the type \<open>error\<close>, named after the Python
  exception classes the code raises; a function that may raise returns \<open>error + 'a\<close>.
  The specification's error kinds are read as follows: MissingRequiredValue and
  UnderspecifiedSystem are \<^verbatim>\<open>RuntimeError\<close>; OutOfRangeValue, InvalidChoice,
  InconsistentPhysicalParameters and InvalidConfiguration are \<^verbatim>\<open>ValueError\<close>;
  TypeMismatch is \<^verbatim>\<open>TypeError\<close>. Python floats are modelled as reals.
\<close>

datatype error =
    RuntimeError | ValueError | TypeError | ZeroDivisionError
  | NameError | AttributeError | KeyError | IndexError | OSError

datatype pyval =
    PyNone
  | PyBool bool
  | PyInt int
  | PyFloat real
  | PyStr string
  | PyList "pyval list"
  | PyDict "(string \<times> pyval) list"

datatype pytype = TList | TDict | TStr | TFloat | TInt

text \<open>\<^verbatim>\<open>isinstance(var, cls)\<close>; a Python \<^verbatim>\<open>bool\<close> is an \<^verbatim>\<open>int\<close>.\<close>

fun isinstance :: "pyval \<Rightarrow> pytype \<Rightarrow> bool" where
  "isinstance (PyList xs) TList = True"
| "isinstance (PyDict kvs) TDict = True"
| "isinstance (PyStr s) TStr = True"
| "isinstance (PyFloat x) TFloat = True"
| "isinstance (PyInt i) TInt = True"
| "isinstance (PyBool b) TInt = True"
| "isinstance v cls = False"

definition andThen :: "error + 'a \<Rightarrow> ('a \<Rightarrow> error + 'b) \<Rightarrow> error + 'b" where
  "andThen r f = (case r of Inl e \<Rightarrow> Inl e | Inr v \<Rightarrow> f v)"

text \<open>Float division raises \<^verbatim>\<open>ZeroDivisionError\<close> on a zero divisor.\<close>

definition py_div :: "real \<Rightarrow> real \<Rightarrow> error + real" where
  "py_div a b = (if b = 0 then Inl ZeroDivisionError else Inr (a / b))"

text \<open>\<^verbatim>\<open>math.sqrt\<close> raises \<^verbatim>\<open>ValueError\<close> (math domain error) below zero.\<close>

definition py_sqrt :: "real \<Rightarrow> error + real" where
  "py_sqrt x = (if x < 0 then Inl ValueError else Inr (sqrt x))"

text \<open>Arithmetic on \<^verbatim>\<open>None\<close> raises \<^verbatim>\<open>TypeError\<close>.\<close>

definition num :: "real option \<Rightarrow> error + real" where
  "num x = (case x of None \<Rightarrow> Inl TypeError | Some v \<Rightarrow> Inr v)"

text \<open>
  Python 2 orders values of different types: \<^verbatim>\<open>None\<close> is below every number, and
  strings, lists and dicts are above every number.
\<close>

fun py_le :: "pyval \<Rightarrow> real \<Rightarrow> bool" where
  "py_le PyNone r = True"
| "py_le (PyBool b) r = ((if b then 1 else 0) \<le> r)"
| "py_le (PyInt i) r = (of_int i \<le> r)"
| "py_le (PyFloat x) r = (x \<le> r)"
| "py_le v r = False"

fun py_lt :: "pyval \<Rightarrow> real \<Rightarrow> bool" where
  "py_lt PyNone r = True"
| "py_lt (PyBool b) r = ((if b then 1 else 0) < r)"
| "py_lt (PyInt i) r = (of_int i < r)"
| "py_lt (PyFloat x) r = (x < r)"
| "py_lt v r = False"

fun py_gt :: "pyval \<Rightarrow> real \<Rightarrow> bool" where
  "py_gt PyNone r = False"
| "py_gt (PyBool b) r = ((if b then 1 else 0) > r)"
| "py_gt (PyInt i) r = (of_int i > r)"
| "py_gt (PyFloat x) r = (x > r)"
| "py_gt v r = True"

text \<open>\<^verbatim>\<open>str.lower()\<close> on ASCII.\<close>

definition lower_char :: "char \<Rightarrow> char" where
  "lower_char ch = (let n = (of_char ch :: nat) in
     if 65 \<le> n \<and> n \<le> 90 then char_of (n + 32) else ch)"

definition lower :: "string \<Rightarrow> string" where
  "lower s = map lower_char s"

section \<open>Imported names\<close>

text \<open>
  The constants the module imports from \<^verbatim>\<open>scipy.constants\<close> and from
  \<^verbatim>\<open>SimEx.Utilities.Utilities\<close> are parameters of the model:
  \<^verbatim>\<open>Avogadro\<close>, \<^verbatim>\<open>physical_constants['Bohr radius'][0]\<close>,
  \<^verbatim>\<open>physical_constants['Rydberg constant times hc in eV'][0]\<close> and \<^verbatim>\<open>ALL_ELEMENTS\<close>.
\<close>

record constants =
  Avogadro :: real
  bohr_radius_m :: real
  rydberg_energy_eV :: real
  ALL_ELEMENTS :: "string list"

text \<open>
  Modelled from the spec: \<^verbatim>\<open>checkAndSetInstance\<close> of \<^verbatim>\<open>SimEx.Utilities.EntityChecks\<close>,
  which is not among the sources. The specification (4.1): a validator accepts a raw
  candidate (possibly absent) and a default; an absent candidate yields the default, and a
  candidate that is not of the expected type fails with TypeMismatch.
\<close>

definition checkAndSetInstance :: "pytype \<Rightarrow> pyval \<Rightarrow> pyval \<Rightarrow> error + pyval" where
  "checkAndSetInstance cls var default_value =
     (if var = PyNone then Inr default_value
      else if isinstance var cls then Inr var
      else Inl TypeError)"

text \<open>
  Modelled from the spec: \<^verbatim>\<open>checkAndSetInteger\<close> of \<^verbatim>\<open>SimEx.Utilities.EntityChecks\<close>,
  which is not among the sources. The specification (3, 4.1): the charge is an integer; an
  absent value with no default fails with MissingRequiredValue, a value of another type with
  TypeMismatch.
\<close>

definition checkAndSetInteger :: "pyval \<Rightarrow> error + pyval" where
  "checkAndSetInteger var =
     (if var = PyNone then Inl RuntimeError else checkAndSetInstance TInt var PyNone)"

text \<open>
  Modelled from the spec: \<^verbatim>\<open>checkAndSetPositiveInteger\<close> of
  \<^verbatim>\<open>SimEx.Utilities.EntityChecks\<close>, which is not among the sources. The specification
  (3, 4.1): the stoichiometric count is a positive integer; a well-typed value outside the
  range fails with OutOfRangeValue.
\<close>

definition checkAndSetPositiveInteger :: "pyval \<Rightarrow> error + pyval" where
  "checkAndSetPositiveInteger var =
     andThen (checkAndSetInteger var) (\<lambda>v. if py_le v 0 then Inl ValueError else Inr v)"

section \<open>Check and set functions\<close>

definition checkAndSetScatteringAngle :: "pyval \<Rightarrow> error + pyval" where
  "checkAndSetScatteringAngle angle =
     (if angle = PyNone then Inl RuntimeError
      else if py_le angle 0.0 \<or> py_gt angle 180.0 then Inl ValueError
      else Inr angle)"

text \<open>
  The body of the loop of \<^verbatim>\<open>checkAndSetElements\<close>. Unpacking \<^verbatim>\<open>None\<close> raises
  \<^verbatim>\<open>TypeError\<close>, unpacking a list that has not three items raises \<^verbatim>\<open>ValueError\<close>.
\<close>

definition check_element :: "constants \<Rightarrow> pyval \<Rightarrow> error + unit" where
  "check_element c element =
     andThen (checkAndSetInstance TList element PyNone) (\<lambda>l.
       case l of
         PyList [symbol, stoch, chrg] \<Rightarrow>
           if symbol \<notin> set (map PyStr (ALL_ELEMENTS c)) then Inl ValueError
           else andThen (checkAndSetPositiveInteger stoch) (\<lambda>stoch.
                andThen (checkAndSetInteger chrg) (\<lambda>chrg.
                  if py_lt chrg (-1) then Inl ValueError else Inr ()))
       | PyList xs \<Rightarrow> Inl ValueError
       | other \<Rightarrow> Inl TypeError)"

fun check_each_element :: "constants \<Rightarrow> pyval list \<Rightarrow> error + unit" where
  "check_each_element c [] = Inr ()"
| "check_each_element c (element # rest) =
     andThen (check_element c element) (\<lambda>u. check_each_element c rest)"

definition checkAndSetElements :: "constants \<Rightarrow> pyval \<Rightarrow> error + pyval" where
  "checkAndSetElements c elements =
     (if elements = PyNone then Inl RuntimeError
      else andThen (checkAndSetInstance TList elements PyNone) (\<lambda>elements.
        case elements of
          PyList xs \<Rightarrow> andThen (check_each_element c xs) (\<lambda>u. Inr elements)
        | other \<Rightarrow> Inl TypeError))"

definition checkAndSetElectronTemperature :: "pyval \<Rightarrow> error + pyval" where
  "checkAndSetElectronTemperature electron_temperature =
     (if electron_temperature = PyNone then Inl RuntimeError
      else andThen (checkAndSetInstance TFloat electron_temperature PyNone) (\<lambda>electron_temperature.
        if py_le electron_temperature 0.0 then Inl ValueError else Inr electron_temperature))"

text \<open>\<^verbatim>\<open>sum(x is None for x in [electron_density, ion_charge, mass_density])\<close>\<close>

definition number_of_nones :: "real option list \<Rightarrow> nat" where
  "number_of_nones xs = length (filter (\<lambda>x. x = None) xs)"

text \<open>
  \<^verbatim>\<open>checkAndSetDensitiesAndCharge\<close>. The three candidates are numbers or absent. Each
  \<^verbatim>\<open>if ... is None\<close> rebinds its variable, so the later lines read the value just
  computed.
\<close>

definition checkAndSetDensitiesAndCharge ::
  "constants \<Rightarrow> real option \<Rightarrow> real option \<Rightarrow> real option \<Rightarrow> error + (real \<times> real \<times> real)" where
  "checkAndSetDensitiesAndCharge c electron_density ion_charge mass_density =
    (if number_of_nones [electron_density, ion_charge, mass_density] > 1 then Inl RuntimeError
     else
       andThen (case electron_density of
                  None \<Rightarrow> andThen (num mass_density) (\<lambda>rho. andThen (num ion_charge) (\<lambda>zf.
                            Inr (rho * zf * Avogadro c * 10 ^ 6)))
                | Some ne \<Rightarrow> Inr ne) (\<lambda>ne.
       andThen (case ion_charge of
                  None \<Rightarrow> andThen (num mass_density) (\<lambda>rho. py_div ne (rho * Avogadro c * 10 ^ 6))
                | Some zf \<Rightarrow> Inr zf) (\<lambda>zf.
       andThen (case mass_density of
                  None \<Rightarrow> py_div ne (zf * Avogadro c * 10 ^ 6)
                | Some rho \<Rightarrow> Inr rho) (\<lambda>rho.
       andThen (py_div ne (rho * zf * Avogadro c * 10 ^ 6)) (\<lambda>q.
         if \<bar>q - 1\<bar> > 0.0001 then Inl ValueError else Inr (ne, zf, rho))))))"

definition checkAndSetIonTemperature :: "pyval \<Rightarrow> pyval \<Rightarrow> error + pyval" where
  "checkAndSetIonTemperature ion_temperature electron_temperature =
     (if electron_temperature = PyNone \<and> ion_temperature = PyNone then Inl RuntimeError
      else andThen (checkAndSetInstance TFloat ion_temperature electron_temperature) (\<lambda>ion_temperature.
        if py_le ion_temperature 0.0 then Inl ValueError else Inr ion_temperature))"

definition checkAndSetDebyeTemperature :: "pyval \<Rightarrow> error + pyval" where
  "checkAndSetDebyeTemperature debye_temperature =
     andThen (checkAndSetInstance TFloat debye_temperature (PyFloat 0.0)) (\<lambda>debye_temperature.
       if py_lt debye_temperature 0.0 then Inl ValueError else Inr debye_temperature)"

definition checkAndSetBandGap :: "pyval \<Rightarrow> error + pyval" where
  "checkAndSetBandGap band_gap =
     andThen (checkAndSetInstance TFloat band_gap (PyFloat 0.0)) (\<lambda>band_gap.
       if py_lt band_gap 0.0 then Inl ValueError else Inr band_gap)"

definition checkAndSetModelMix :: "pyval \<Rightarrow> error + pyval" where
  "checkAndSetModelMix model_Mix =
     (let model_Mix = (case model_Mix of PyStr s \<Rightarrow> PyStr (lower s) | other \<Rightarrow> other) in
      if model_Mix \<notin> set [PyStr ''adv'', PyNone] then Inl ValueError
      else Inr (if model_Mix = PyStr ''adv'' then PyInt 1 else PyInt 0))"

definition checkAndSetLFC :: "pyval \<Rightarrow> error + pyval" where
  "checkAndSetLFC lfc = checkAndSetInstance TFloat lfc (PyFloat 0.0)"

definition checkAndSetSbfNorm :: "pyval \<Rightarrow> error + pyval" where
  "checkAndSetSbfNorm Sbf_norm =
     (if Sbf_norm \<notin> set [PyStr ''FK'', PyStr ''NO'', PyNone] \<and> \<not> isinstance Sbf_norm TFloat
      then Inl ValueError
      else Inr Sbf_norm)"

definition checkAndSetEnergyRange :: "constants \<Rightarrow> pyval \<Rightarrow> real \<Rightarrow> error + pyval" where
  "checkAndSetEnergyRange c energy_range electron_density =
     andThen (py_sqrt (electron_density * (bohr_radius_m c * 10 ^ 2) ^ 3 * pi)) (\<lambda>root.
       let plasma_frequency_eV = 4 * root * rydberg_energy_eV c;
           energy_range_default = PyDict [(''min'', PyFloat (- 10 * plasma_frequency_eV)),
                                          (''max'', PyFloat (10 * plasma_frequency_eV)),
                                          (''step'', PyFloat (0.1 * plasma_frequency_eV))]
       in checkAndSetInstance TDict energy_range energy_range_default)"

definition checkAndSetModelSii :: "pyval \<Rightarrow> error + pyval" where
  "checkAndSetModelSii model =
     (let model = (if model = PyNone then PyStr ''SOCP'' else model);
          valid_models = [''DH'', ''OCP'', ''SOCP'', ''SOCPN'']
      in if \<not> (model \<in> set (map PyStr valid_models) \<or> \<not> isinstance model TFloat)
         then Inl ValueError
         else Inr model)"

definition checkAndSetModelSee :: "pyval \<Rightarrow> error + pyval" where
  "checkAndSetModelSee model =
     andThen (checkAndSetInstance TStr model (PyStr ''RPA'')) (\<lambda>model.
       let valid_models = [''RPA'', ''Lindhard'', ''static LFC'', ''dynamic LFC'',
                           ''BMA'', ''BMA+sLFC'', ''BMA+dLFC'']
       in if model \<notin> set (map PyStr valid_models) then Inl ValueError else Inr model)"

definition checkAndSetModelSbf :: "pyval \<Rightarrow> error + pyval" where
  "checkAndSetModelSbf model =
     andThen (checkAndSetInstance TStr model (PyStr ''IA'')) (\<lambda>model.
       let valid_models = [''IA'', ''IBA'', ''FFA'']
       in if model \<notin> set (map PyStr valid_models) then Inl ValueError else Inr model)"

definition checkAndSetModelIPL :: "pyval \<Rightarrow> error + pyval" where
  "checkAndSetModelIPL model =
     (let model = (if model = PyNone then PyStr ''SP'' else model);
          valid_models = [''SP'', ''EK'']
      in if \<not> (model \<in> set (map PyStr valid_models) \<or> \<not> isinstance model TFloat)
         then Inl ValueError
         else Inr model)"

section \<open>The class\<close>

text \<open>
  An instance is its attribute dictionary. The private attribute \<^verbatim>\<open>self.__x\<close> is kept
  under the name \<open>__x\<close> the source writes. The keyword arguments of the constructor are
  the record \<open>args\<close>; the three legs of the density triple are numbers or absent, every
  other argument is any Python value (\<open>PyNone\<close> when omitted).
\<close>

type_synonym pyobj = "string \<rightharpoonup> pyval"

record args =
  elements :: pyval
  scattering_angle :: pyval
  electron_temperature :: pyval
  electron_density :: "real option"
  ion_temperature :: pyval
  ion_charge :: "real option"
  mass_density :: "real option"
  debye_temperature :: pyval
  band_gap :: pyval
  energy_range :: pyval
  model_Sii :: pyval
  model_See :: pyval
  model_Sbf :: pyval
  model_IPL :: pyval
  model_Mix :: pyval
  lfc :: pyval
  Sbf_norm :: pyval

text \<open>\<^verbatim>\<open>__init__\<close>: an exception of a validator leaves no instance.\<close>

definition init :: "constants \<Rightarrow> args \<Rightarrow> error + pyobj" where
  "init c a =
     andThen (checkAndSetElements c (elements a)) (\<lambda>v_elements.
     andThen (checkAndSetScatteringAngle (scattering_angle a)) (\<lambda>v_scattering_angle.
     andThen (checkAndSetElectronTemperature (electron_temperature a)) (\<lambda>v_electron_temperature.
     andThen (checkAndSetDensitiesAndCharge c (electron_density a) (ion_charge a) (mass_density a))
       (\<lambda>(v_electron_density, v_ion_charge, v_mass_density).
     andThen (checkAndSetIonTemperature (ion_temperature a) v_electron_temperature) (\<lambda>v_ion_temperature.
     andThen (checkAndSetDebyeTemperature (debye_temperature a)) (\<lambda>v_debye_temperature.
     andThen (checkAndSetBandGap (band_gap a)) (\<lambda>v_band_gap.
     andThen (checkAndSetEnergyRange c (energy_range a) v_electron_density) (\<lambda>v_energy_range.
     andThen (checkAndSetModelSii (model_Sii a)) (\<lambda>v_model_Sii.
     andThen (checkAndSetModelSee (model_See a)) (\<lambda>v_model_See.
     andThen (checkAndSetModelSbf (model_Sbf a)) (\<lambda>v_model_Sbf.
     andThen (checkAndSetModelIPL (model_IPL a)) (\<lambda>v_model_IPL.
     andThen (checkAndSetModelMix (model_Mix a)) (\<lambda>v_model_Mix.
     andThen (checkAndSetLFC (lfc a)) (\<lambda>v_lfc.
     andThen (checkAndSetSbfNorm (Sbf_norm a)) (\<lambda>v_Sbf_norm.
       Inr [''__elements'' \<mapsto> v_elements,
            ''__scattering_angle'' \<mapsto> v_scattering_angle,
            ''__electron_temperature'' \<mapsto> v_electron_temperature,
            ''__electron_density'' \<mapsto> PyFloat v_electron_density,
            ''__ion_charge'' \<mapsto> PyFloat v_ion_charge,
            ''__mass_density'' \<mapsto> PyFloat v_mass_density,
            ''__ion_temperature'' \<mapsto> v_ion_temperature,
            ''__debye_temperature'' \<mapsto> v_debye_temperature,
            ''__band_gap'' \<mapsto> v_band_gap,
            ''__energy_range'' \<mapsto> v_energy_range,
            ''__model_Sii'' \<mapsto> v_model_Sii,
            ''__model_See'' \<mapsto> v_model_See,
            ''__model_Sbf'' \<mapsto> v_model_Sbf,
            ''__model_IPL'' \<mapsto> v_model_IPL,
            ''__model_Mix'' \<mapsto> v_model_Mix,
            ''__lfc'' \<mapsto> v_lfc,
            ''__Sbf_norm'' \<mapsto> v_Sbf_norm,
            ''__is_initialized'' \<mapsto> PyBool False])))))))))))))))"

text \<open>
  Reading \<^verbatim>\<open>self.name\<close>: the class defines a property for each of the seventeen
  parameters, whose getter returns the private attribute; any other name is looked up in
  the instance, and a name that is not there raises \<^verbatim>\<open>AttributeError\<close>.
\<close>

definition properties :: "string list" where
  "properties = [''elements'', ''scattering_angle'', ''electron_temperature'',
     ''electron_density'', ''ion_temperature'', ''ion_charge'', ''mass_density'',
     ''debye_temperature'', ''band_gap'', ''energy_range'', ''model_Sii'', ''model_See'',
     ''model_Sbf'', ''model_IPL'', ''model_Mix'', ''lfc'', ''Sbf_norm'']"

definition getattr :: "pyobj \<Rightarrow> string \<Rightarrow> error + pyval" where
  "getattr self name =
     (case self (if name \<in> set properties then ''__'' @ name else name) of
        None \<Rightarrow> Inl AttributeError
      | Some v \<Rightarrow> Inr v)"

subsection \<open>The setters\<close>

text \<open>
  A setter calls a validator by its global name, which Python resolves when the call runs.
  \<open>module_functions\<close> are the functions the module defines, with what a call with one
  argument does: \<^verbatim>\<open>checkAndSetIonTemperature\<close> has a default for its second parameter,
  \<^verbatim>\<open>checkAndSetEnergyRange\<close> and \<^verbatim>\<open>checkAndSetDensitiesAndCharge\<close> have none, so a call
  with one argument raises \<^verbatim>\<open>TypeError\<close>. The import statements of the module bind
  \<^verbatim>\<open>paths\<close>, \<^verbatim>\<open>os\<close>, \<^verbatim>\<open>numpy\<close>, \<^verbatim>\<open>math\<close>, \<^verbatim>\<open>tempfile\<close>, \<^verbatim>\<open>physical_constants\<close>,
  \<^verbatim>\<open>Avogadro\<close>, \<^verbatim>\<open>ALL_ELEMENTS\<close>, \<^verbatim>\<open>checkAndSetInstance\<close>, \<^verbatim>\<open>checkAndSetInteger\<close>,
  \<^verbatim>\<open>checkAndSetPositiveInteger\<close> and \<^verbatim>\<open>checkAndSetNonNegativeInteger\<close>; no setter calls
  one of these. A name that is bound nowhere raises \<^verbatim>\<open>NameError\<close>.
\<close>

definition module_functions :: "constants \<Rightarrow> (string \<times> (pyval \<Rightarrow> error + pyval)) list" where
  "module_functions c =
     [(''checkAndSetScatteringAngle'', checkAndSetScatteringAngle),
      (''checkAndSetElements'', checkAndSetElements c),
      (''checkAndSetElectronTemperature'', checkAndSetElectronTemperature),
      (''checkAndSetDensitiesAndCharge'', \<lambda>v. Inl TypeError),
      (''checkAndSetIonTemperature'', \<lambda>v. checkAndSetIonTemperature v PyNone),
      (''checkAndSetDebyeTemperature'', checkAndSetDebyeTemperature),
      (''checkAndSetBandGap'', checkAndSetBandGap),
      (''checkAndSetModelMix'', checkAndSetModelMix),
      (''checkAndSetLFC'', checkAndSetLFC),
      (''checkAndSetSbfNorm'', checkAndSetSbfNorm),
      (''checkAndSetEnergyRange'', \<lambda>v. Inl TypeError),
      (''checkAndSetModelSii'', checkAndSetModelSii),
      (''checkAndSetModelSee'', checkAndSetModelSee),
      (''checkAndSetModelSbf'', checkAndSetModelSbf),
      (''checkAndSetModelIPL'', checkAndSetModelIPL)]"

definition call_global :: "constants \<Rightarrow> string \<Rightarrow> pyval \<Rightarrow> error + pyval" where
  "call_global c name value =
     (case map_of (module_functions c) name of
        None \<Rightarrow> Inl NameError
      | Some f \<Rightarrow> f value)"

text \<open>\<^verbatim>\<open>self.__x = f(value)\<close>: the attribute is assigned only when the call returns.\<close>

definition assign_checked :: "constants \<Rightarrow> pyobj \<Rightarrow> string \<Rightarrow> string \<Rightarrow> pyval \<Rightarrow> error + pyobj" where
  "assign_checked c self attr f value =
     andThen (call_global c f value) (\<lambda>v. Inr (self(attr \<mapsto> v)))"

definition elements_setter :: "constants \<Rightarrow> pyobj \<Rightarrow> pyval \<Rightarrow> error + pyobj" where
  "elements_setter c self value = assign_checked c self ''__elements'' ''checkAndSetElements'' value"

definition scattering_angle_setter :: "constants \<Rightarrow> pyobj \<Rightarrow> pyval \<Rightarrow> error + pyobj" where
  "scattering_angle_setter c self value =
     assign_checked c self ''__scattering_angle'' ''checkAndSetScatteringAngle'' value"

definition electron_temperature_setter :: "constants \<Rightarrow> pyobj \<Rightarrow> pyval \<Rightarrow> error + pyobj" where
  "electron_temperature_setter c self value =
     assign_checked c self ''__electron_temperature'' ''checkAndSetElectronTemperature'' value"

definition electron_density_setter :: "constants \<Rightarrow> pyobj \<Rightarrow> pyval \<Rightarrow> error + pyobj" where
  "electron_density_setter c self value =
     assign_checked c self ''__electron_density'' ''checkAndSetElectronDensity'' value"

definition ion_temperature_setter :: "constants \<Rightarrow> pyobj \<Rightarrow> pyval \<Rightarrow> error + pyobj" where
  "ion_temperature_setter c self value =
     assign_checked c self ''__ion_temperature'' ''checkAndSetIonTemperature'' value"

definition ion_charge_setter :: "constants \<Rightarrow> pyobj \<Rightarrow> pyval \<Rightarrow> error + pyobj" where
  "ion_charge_setter c self value =
     assign_checked c self ''__ion_charge'' ''checkAndSetIonCharge'' value"

definition mass_density_setter :: "constants \<Rightarrow> pyobj \<Rightarrow> pyval \<Rightarrow> error + pyobj" where
  "mass_density_setter c self value =
     assign_checked c self ''__mass_density'' ''checkAndSetMassDensity'' value"

definition debye_temperature_setter :: "constants \<Rightarrow> pyobj \<Rightarrow> pyval \<Rightarrow> error + pyobj" where
  "debye_temperature_setter c self value =
     assign_checked c self ''__debye_temperature'' ''checkAndSetDebyeTemperature'' value"

definition band_gap_setter :: "constants \<Rightarrow> pyobj \<Rightarrow> pyval \<Rightarrow> error + pyobj" where
  "band_gap_setter c self value = assign_checked c self ''__band_gap'' ''checkAndSetBandGap'' value"

definition energy_range_setter :: "constants \<Rightarrow> pyobj \<Rightarrow> pyval \<Rightarrow> error + pyobj" where
  "energy_range_setter c self value =
     assign_checked c self ''__energy_range'' ''checkAndSetEnergyRange'' value"

definition model_Sii_setter :: "constants \<Rightarrow> pyobj \<Rightarrow> pyval \<Rightarrow> error + pyobj" where
  "model_Sii_setter c self value = assign_checked c self ''__model_Sii'' ''checkAndSetModelSii'' value"

definition model_See_setter :: "constants \<Rightarrow> pyobj \<Rightarrow> pyval \<Rightarrow> error + pyobj" where
  "model_See_setter c self value = assign_checked c self ''__model_See'' ''checkAndSetModelSee'' value"

definition model_Sbf_setter :: "constants \<Rightarrow> pyobj \<Rightarrow> pyval \<Rightarrow> error + pyobj" where
  "model_Sbf_setter c self value = assign_checked c self ''__model_Sbf'' ''checkAndSetModelSbf'' value"

definition model_IPL_setter :: "constants \<Rightarrow> pyobj \<Rightarrow> pyval \<Rightarrow> error + pyobj" where
  "model_IPL_setter c self value = assign_checked c self ''__model_IPL'' ''checkAndSetModelIPL'' value"

definition model_Mix_setter :: "constants \<Rightarrow> pyobj \<Rightarrow> pyval \<Rightarrow> error + pyobj" where
  "model_Mix_setter c self value = assign_checked c self ''__model_Mix'' ''checkAndSetModelMix'' value"

definition lfc_setter :: "constants \<Rightarrow> pyobj \<Rightarrow> pyval \<Rightarrow> error + pyobj" where
  "lfc_setter c self value = assign_checked c self ''__lfc'' ''checkAndSetLFC'' value"

definition Sbf_norm_setter :: "constants \<Rightarrow> pyobj \<Rightarrow> pyval \<Rightarrow> error + pyobj" where
  "Sbf_norm_setter c self value = assign_checked c self ''__Sbf_norm'' ''checkAndSetSbfNorm'' value"

section \<open>The input deck\<close>

text \<open>
  \<^verbatim>\<open>_initialize\<close> is a sequence of \<^verbatim>\<open>input_deck.write\<close> calls, each writing one line
  (the model keeps a line without its final newline). A statement writes a literal, or a
  format string applied with \<^verbatim>\<open>%\<close> to expressions over \<^verbatim>\<open>self\<close>, or is the loop over
  \<^verbatim>\<open>enumerate(self.elements.keys())\<close>.
\<close>

datatype expr = Attr string | Item expr string | Len expr

datatype stmt = Write string | WriteFmt string "expr list" | ForElementKeys string

definition deck :: "stmt list" where
  "deck =
  [Write ''--XRTS---input_file-----------------------------------'',
   Write ''--'',
   Write ''--fit_parameters------------------------------flag----'',
   Write ''DO_FIT                 0'',
   WriteFmt ''PHOTON_ENERGY %4.3f'' [Item (Attr ''_input_data'') ''photon_energy''],
   WriteFmt ''SCATTERING_ANGLE     %4.3f'' [Attr ''scattering_angle''],
   WriteFmt ''ELECTRON_TEMP     %4.3f 0'' [Attr ''electron_temperature''],
   WriteFmt ''ELECTRON_DENSITY     %4.3e 0'' [Attr ''electron_density''],
   Write ''AMPLITUDE         1.0         0'',
   Write ''BASELINE             0.0         0'',
   WriteFmt ''Z_FREE             %4.3f        0'' [Attr ''ion_charge''],
   Write ''OUT(1=XSEC,2=PWR)    1'',
   Write ''--model_for_total_spec---------use-flag--------------'',
   WriteFmt ''USE_RPA %d'' [Attr ''__use_rpa''],
   WriteFmt ''USE_LINDHARD %d'' [Attr ''__use_lindhard''],
   Write ''USE_TSYTOVICH 0'',
   WriteFmt ''USE_STATIC_LFC %d'' [Attr ''__use_static_lfc''],
   WriteFmt ''USE_DYNAMIC_LFC %d'' [Attr ''__use_dynamic_lfc''],
   WriteFmt ''USE_MFF %d'' [Attr ''__use_mff''],
   WriteFmt ''USE_BMA %d'' [Attr ''__use_bma''],
   WriteFmt ''USE_BMA+sLFC '' [Attr ''__use_bma_slfc''],
   Write ''USE_CORE 1'',
   Write ''--gradients------------------------------------------'',
   Write ''GRAD 0'',
   Write ''L_GRADIENT            0.0e-0        '',
   Write ''T_GRADIENT            0.0'',
   Write ''DSTEP                0.0    '',
   Write ''--ion_parameters----------------------------use_flag-'',
   WriteFmt ''ION_TEMP %d 1'' [Attr ''ion_temperature''],
   WriteFmt ''S_ION_FEATURE %4.3f %d'' [Attr ''__Sii_value'', Attr ''__use_Sii_value''],
   WriteFmt ''DEBYE_TEMP %4.3f %d'' [Attr ''debye_temperature'', Attr ''__use_debye_temperature''],
   WriteFmt ''BAND_GAP %4.3f %d'' [Attr ''band_gap'', Attr ''__use_band_gap''],
   Write ''--integration----------------------------------------'',
   Write ''N_DAWSON 32'',
   Write ''N_DISTRIBUTION 32'',
   Write ''N_PVI 32'',
   Write ''N_LANDEN 512'',
   Write ''N_RELAXATION 1024'',
   Write ''N_FFT 4096'',
   Write ''EPS 1.0E-4'',
   Write ''--See(k,w)------------------------------use/norm-----'',
   WriteFmt ''STATIC_MODEL(DH,OCP,SOCP,SOCPN) %s'' [Attr ''model_Sii''],
   WriteFmt ''USE_ADV_Mix %d'' [Attr ''model_Mix''],
   Write ''USE_IRS_MODEL                     0'',
   Write ''HARD_SPHERE_DIAM                 1E-10 0'',
   Write ''POLARIZABILITY                     0.0 0.0'',
   WriteFmt ''BOUND-FREE_MODEL(IA,IBA,FFA)     %s'' [Attr ''model_Sbf''],
   WriteFmt ''BOUND-FREE_NORM(FK,NO,USR)         %s     %d'' [Attr ''Sbf_norm'', Attr ''__normalize_Sbf''],
   Write ''BOUND-FREE_MEFF                 1.0'',
   Write ''USE_BOUND-FREE_DOPPLER          0'',
   WriteFmt ''CONT-LOWR_MODEL(SP,EK,USR)      %s'' [Attr ''model_IPL''],
   Write ''GK                         %4.3f 0'',
   WriteFmt ''RPA                         %d 0'' [Attr ''__use_rpa''],
   WriteFmt ''LINDHARD                     %d 0'' [Attr ''__use_lindhard''],
   Write ''SALPETER                         0 0'',
   Write ''LANDEN                         0 0'',
   Write ''RPA_TSYTOVICH                 0 0'',
   Write ''STATIC_LFC                     0 0'',
   Write ''DYNAMIC_LFC                     0 0'',
   Write ''MFF                             0 0'',
   WriteFmt ''BMA(+sLFC)                     %d 0'' [Attr ''__write_bma''],
   Write ''CORE                             1 0'',
   Write ''TOTAL                         0 0'',
   WriteFmt ''E_MIN                         %4.3f'' [Item (Attr ''energy_range'') ''min''],
   WriteFmt ''E_MAX                         %4.3f'' [Item (Attr ''energy_range'') ''max''],
   WriteFmt ''E_STEP                         %4.3f'' [Item (Attr ''energy_range'') ''step''],
   Write ''--target_spec--------------------------chem----Zfree--'',
   WriteFmt ''NUMBER_OF_SPECIES %d'' [Len (Attr ''elements'')],
   ForElementKeys ''TARGET_%d %s %d %d'',
   WriteFmt ''MASS_DENSITY %4.3f'' [Attr ''mass_density''],
   WriteFmt ''NE_ZF_LOCK %d'' [Attr ''__lock_zf''],
   Write ''DATA_FILE data.txt'',
   Write ''NUMBER_POINTS 1024'',
   Write ''OPACITY_FILE nofile 0'',
   Write ''--instrument_function---------------------------------'',
   Write ''USE_FILE 0'',
   Write ''FILE_NAME nofile.dat'',
   Write ''INST_MODEL GAUSSIAN'',
   Write ''INST_FWHM 5.0'',
   Write ''BIN_PER_PIXEL 1.0'',
   Write ''INST_INDEX 2.0'',
   Write ''--additional_parameters-------------------------------'',
   Write ''MAX_ITERATIONS 0'',
   Write ''LEVENBERG_MARQUARDT 0'',
   Write ''SIGMA_LM 1.0'',
   Write ''SAVE_FILE xrts_out.txt'']"

text \<open>\<^verbatim>\<open>v[key]\<close> with a string key, \<^verbatim>\<open>len(v)\<close>, \<^verbatim>\<open>v[i]\<close> with an index, \<^verbatim>\<open>v.keys()\<close>.\<close>

definition getitem :: "pyval \<Rightarrow> string \<Rightarrow> error + pyval" where
  "getitem v key =
     (case v of
        PyDict kvs \<Rightarrow> (case map_of kvs key of None \<Rightarrow> Inl KeyError | Some x \<Rightarrow> Inr x)
      | other \<Rightarrow> Inl TypeError)"

definition py_len :: "pyval \<Rightarrow> error + pyval" where
  "py_len v =
     (case v of
        PyStr s \<Rightarrow> Inr (PyInt (int (length s)))
      | PyList xs \<Rightarrow> Inr (PyInt (int (length xs)))
      | PyDict kvs \<Rightarrow> Inr (PyInt (int (length kvs)))
      | other \<Rightarrow> Inl TypeError)"

definition getindex :: "pyval \<Rightarrow> nat \<Rightarrow> error + pyval" where
  "getindex v i =
     (case v of
        PyStr s \<Rightarrow> if i < length s then Inr (PyStr [s ! i]) else Inl IndexError
      | PyList xs \<Rightarrow> if i < length xs then Inr (xs ! i) else Inl IndexError
      | PyDict kvs \<Rightarrow> Inl KeyError
      | other \<Rightarrow> Inl TypeError)"

definition py_keys :: "pyval \<Rightarrow> error + pyval list" where
  "py_keys v =
     (case v of
        PyDict kvs \<Rightarrow> Inr (map (\<lambda>kv. PyStr (fst kv)) kvs)
      | other \<Rightarrow> Inl AttributeError)"

fun eval_expr :: "pyobj \<Rightarrow> expr \<Rightarrow> error + pyval" where
  "eval_expr self (Attr name) = getattr self name"
| "eval_expr self (Item e key) = andThen (eval_expr self e) (\<lambda>v. getitem v key)"
| "eval_expr self (Len e) = andThen (eval_expr self e) py_len"

fun eval_args :: "pyobj \<Rightarrow> expr list \<Rightarrow> error + pyval list" where
  "eval_args self [] = Inr []"
| "eval_args self (e # es) =
     andThen (eval_expr self e) (\<lambda>v. andThen (eval_args self es) (\<lambda>vs. Inr (v # vs)))"

text \<open>
  Python's \<^verbatim>\<open>%\<close> on a format string and its arguments is a parameter of the model. A
  statement returns the lines it wrote and the exception that stopped it, if any.
\<close>

type_synonym formatter = "string \<Rightarrow> pyval list \<Rightarrow> error + string"

fun write_targets :: "formatter \<Rightarrow> string \<Rightarrow> nat \<Rightarrow> pyval list \<Rightarrow> error option \<times> string list" where
  "write_targets fmt f i [] = (None, [])"
| "write_targets fmt f i (element # rest) =
     (case andThen (getindex element 0) (\<lambda>e0.
           andThen (getindex element 1) (\<lambda>e1.
           andThen (getindex element 2) (\<lambda>e2.
             fmt f [PyInt (int i + 1), e0, e1, e2]))) of
        Inl e \<Rightarrow> (Some e, [])
      | Inr line \<Rightarrow>
          (case write_targets fmt f (i + 1) rest of (r, lines) \<Rightarrow> (r, line # lines)))"

fun exec_stmt :: "formatter \<Rightarrow> pyobj \<Rightarrow> stmt \<Rightarrow> error option \<times> string list" where
  "exec_stmt fmt self (Write s) = (None, [s])"
| "exec_stmt fmt self (WriteFmt f es) =
     (case andThen (eval_args self es) (fmt f) of
        Inl e \<Rightarrow> (Some e, [])
      | Inr line \<Rightarrow> (None, [line]))"
| "exec_stmt fmt self (ForElementKeys f) =
     (case andThen (getattr self ''elements'') py_keys of
        Inl e \<Rightarrow> (Some e, [])
      | Inr ks \<Rightarrow> write_targets fmt f 0 ks)"

fun run_deck :: "formatter \<Rightarrow> pyobj \<Rightarrow> stmt list \<Rightarrow> error option \<times> string list" where
  "run_deck fmt self [] = (None, [])"
| "run_deck fmt self (s # ss) =
     (case exec_stmt fmt self s of
        (Some e, lines) \<Rightarrow> (Some e, lines)
      | (None, lines) \<Rightarrow>
          (case run_deck fmt self ss of (r, lines') \<Rightarrow> (r, lines @ lines')))"

text \<open>
  \<^verbatim>\<open>_initialize\<close>. The outcome of \<^verbatim>\<open>tempfile.mkdtemp\<close> is an input: the path of the new
  directory or the exception of the file system. The file system maps a path to the lines
  of the file; opening the deck file in the directory just made is taken to succeed. The
  \<^verbatim>\<open>with\<close> block closes the deck file also when a statement raises, so the lines
  written so far are in the file.
\<close>

type_synonym filesystem = "string \<rightharpoonup> string list"

definition initialize ::
  "formatter \<Rightarrow> error + string \<Rightarrow> pyobj \<Rightarrow> filesystem \<Rightarrow> error option \<times> pyobj \<times> filesystem" where
  "initialize fmt mkdtemp self fs =
     (case mkdtemp of
        Inl e \<Rightarrow> (Some e, self, fs)
      | Inr tmp_dir \<Rightarrow>
          (let self = self(''__tmp_dir'' \<mapsto> PyStr tmp_dir);
               input_deck_path = tmp_dir @ ''/input.dat''
           in case run_deck fmt self deck of
                (r, lines) \<Rightarrow> (r, self, fs(input_deck_path \<mapsto> lines))))"

section \<open>The plasma frequency of the specification\<close>

text \<open>
  The specification's formula (4.3): \<open>\<omega>\<^sub>p = 4 * sqrt (n\<^sub>e * a\<^sub>0\<^sup>3 * \<pi>) * Ry\<close>, with \<open>a\<^sub>0\<close> the Bohr
  radius in cm (the radius in m times 100) and \<open>Ry\<close> the Rydberg energy in eV.
\<close>

definition plasma_frequency_spec :: "constants \<Rightarrow> real \<Rightarrow> real" where
  "plasma_frequency_spec c n =
     4 * sqrt (n * (bohr_radius_m c * 100) ^ 3 * pi) * rydberg_energy_eV c"

section \<open>Example inputs\<close>

text \<open>
  Values for the imported constants (CODATA 2018) and a short table of element symbols,
  used where a statement is evaluated on a concrete input. The elements are those of the
  constructor's documentation (plastic, CH).
\<close>

definition example_constants :: constants where
  "example_constants =
     \<lparr>Avogadro = 6.02214076 * 10 ^ 23,
      bohr_radius_m = 5.29177210903 / 10 ^ 11,
      rydberg_energy_eV = 13.605693122994,
      ALL_ELEMENTS = [''H'', ''He'', ''Li'', ''Be'', ''B'', ''C'', ''N'', ''O'']\<rparr>"

definition example_elements :: pyval where
  "example_elements =
     PyList [PyList [PyStr ''C'', PyInt 1, PyInt 4], PyList [PyStr ''H'', PyInt 1, PyInt (- 1)]]"

text \<open>Ion charge and mass density given, everything optional omitted.\<close>

definition example_args :: args where
  "example_args =
     \<lparr>elements = example_elements,
      scattering_angle = PyFloat 90,
      electron_temperature = PyFloat 10,
      electron_density = None,
      ion_temperature = PyNone,
      ion_charge = Some 4,
      mass_density = Some 2,
      debye_temperature = PyNone,
      band_gap = PyNone,
      energy_range = PyNone,
      model_Sii = PyNone,
      model_See = PyNone,
      model_Sbf = PyNone,
      model_IPL = PyNone,
      model_Mix = PyNone,
      lfc = PyNone,
      Sbf_norm = PyNone\<rparr>"

text \<open>The energy range of the constructor's documentation.\<close>

definition example_window :: pyval where
  "example_window =
     PyDict [(''min'', PyFloat (- 100)), (''max'', PyFloat 100), (''step'', PyFloat 0.5)]"

definition example_instance :: "real \<Rightarrow> real \<Rightarrow> real \<Rightarrow> pyval \<Rightarrow> pyobj" where
  "example_instance n z r window =
     [''__elements'' \<mapsto> example_elements,
      ''__scattering_angle'' \<mapsto> PyFloat 90,
      ''__electron_temperature'' \<mapsto> PyFloat 10,
      ''__electron_density'' \<mapsto> PyFloat n,
      ''__ion_charge'' \<mapsto> PyFloat z,
      ''__mass_density'' \<mapsto> PyFloat r,
      ''__ion_temperature'' \<mapsto> PyFloat 10,
      ''__debye_temperature'' \<mapsto> PyFloat 0,
      ''__band_gap'' \<mapsto> PyFloat 0,
      ''__energy_range'' \<mapsto> window,
      ''__model_Sii'' \<mapsto> PyStr ''SOCP'',
      ''__model_See'' \<mapsto> PyStr ''RPA'',
      ''__model_Sbf'' \<mapsto> PyStr ''IA'',
      ''__model_IPL'' \<mapsto> PyStr ''SP'',
      ''__model_Mix'' \<mapsto> PyInt 0,
      ''__lfc'' \<mapsto> PyFloat 0,
      ''__Sbf_norm'' \<mapsto> PyNone,
      ''__is_initialized'' \<mapsto> PyBool False]"

text \<open>A stand-in for \<^verbatim>\<open>%\<close> that returns the format string as it is.\<close>

definition format_verbatim :: formatter where
  "format_verbatim f vs = Inr f"

text \<open>The electron density the solver derives from the example's charge and density.\<close>

definition example_density :: real where
  "example_density = 4817712608 * 10 ^ 21"

definition example_default_window :: pyval where
  "example_default_window =
     PyDict [(''min'', PyFloat (- (10 * plasma_frequency_spec example_constants example_density))),
             (''max'', PyFloat (10 * plasma_frequency_spec example_constants example_density)),
             (''step'', PyFloat (0.1 * plasma_frequency_spec example_constants example_density))]"

text \<open>The lines the first four statements of the deck write.\<close>

definition deck_header :: "string list" where
  "deck_header =
     [''--XRTS---input_file-----------------------------------'',
      ''--'',
      ''--fit_parameters------------------------------flag----'',
      ''DO_FIT                 0'']"

section \<open>Basic facts\<close>

lemma andThen_Inr [simp]: "andThen (Inr v) f = f v"
  by (simp add: andThen_def)

lemma andThen_Inl [simp]: "andThen (Inl e) f = Inl e"
  by (simp add: andThen_def)

lemma andThen_Inr_iff: "andThen r f = Inr y \<longleftrightarrow> (\<exists>v. r = Inr v \<and> f v = Inr y)"
  by (cases r) simp_all

subsection \<open>The solver, case by case\<close>

lemma solver_all_three:
  "checkAndSetDensitiesAndCharge c (Some n) (Some z) (Some r) =
     (if r * z * Avogadro c * 10 ^ 6 = 0 then Inl ZeroDivisionError
      else if \<bar>n / (r * z * Avogadro c * 10 ^ 6) - 1\<bar> > 0.0001 then Inl ValueError
      else Inr (n, z, r))"
  by (simp add: checkAndSetDensitiesAndCharge_def number_of_nones_def py_div_def)

lemma solver_no_density:
  "checkAndSetDensitiesAndCharge c None (Some z) (Some r) =
     (if r * z * Avogadro c * 10 ^ 6 = 0 then Inl ZeroDivisionError
      else Inr (r * z * Avogadro c * 10 ^ 6, z, r))"
  by (simp add: checkAndSetDensitiesAndCharge_def number_of_nones_def py_div_def num_def)

lemma solver_no_charge:
  "checkAndSetDensitiesAndCharge c (Some n) None (Some r) =
     (if r * Avogadro c * 10 ^ 6 = 0 \<or> n = 0 then Inl ZeroDivisionError
      else Inr (n, n / (r * Avogadro c * 10 ^ 6), r))"
  by (simp add: checkAndSetDensitiesAndCharge_def number_of_nones_def py_div_def num_def)

lemma solver_no_mass:
  "checkAndSetDensitiesAndCharge c (Some n) (Some z) None =
     (if z * Avogadro c * 10 ^ 6 = 0 \<or> n = 0 then Inl ZeroDivisionError
      else Inr (n, z, n / (z * Avogadro c * 10 ^ 6)))"
  by (simp add: checkAndSetDensitiesAndCharge_def number_of_nones_def py_div_def num_def)


lemma nones_cases:
  "number_of_nones [ne, zf, rho] \<le> 1 \<Longrightarrow>
     (\<exists>z r. ne = None \<and> zf = Some z \<and> rho = Some r) \<or>
     (\<exists>n r. ne = Some n \<and> zf = None \<and> rho = Some r) \<or>
     (\<exists>n z. ne = Some n \<and> zf = Some z \<and> rho = None) \<or>
     (\<exists>n z r. ne = Some n \<and> zf = Some z \<and> rho = Some r)"
  by (cases ne; cases zf; cases rho) (simp_all add: number_of_nones_def)

subsection \<open>The energy range\<close>

lemma sqrt_guard: "0 \<le> x \<Longrightarrow> py_sqrt (x * pi) = Inr (sqrt (x * pi))"
  by (simp add: py_sqrt_def not_less)

lemma energy_range_supplied:
  "0 \<le> n \<Longrightarrow> 0 \<le> bohr_radius_m c \<Longrightarrow>
   checkAndSetEnergyRange c (PyDict kvs) n = Inr (PyDict kvs)"
  by (simp add: checkAndSetEnergyRange_def sqrt_guard checkAndSetInstance_def Let_def)

lemma energy_range_default:
  "0 \<le> n \<Longrightarrow> 0 \<le> bohr_radius_m c \<Longrightarrow>
   checkAndSetEnergyRange c PyNone n =
     Inr (PyDict [(''min'', PyFloat (- (10 * plasma_frequency_spec c n))),
                  (''max'', PyFloat (10 * plasma_frequency_spec c n)),
                  (''step'', PyFloat (0.1 * plasma_frequency_spec c n))])"
  by (simp add: checkAndSetEnergyRange_def sqrt_guard checkAndSetInstance_def Let_def
      plasma_frequency_spec_def)


lemma energy_range_nonneg:
  assumes "checkAndSetEnergyRange c er n = Inr v" and "0 < bohr_radius_m c"
  shows "0 \<le> n"
proof (rule ccontr)
  assume "\<not> 0 \<le> n"
  then have "n < 0" by simp
  moreover have "0 < (bohr_radius_m c * 10 ^ 2) ^ 3 * pi" using assms(2) by simp
  ultimately have "n * ((bohr_radius_m c * 10 ^ 2) ^ 3 * pi) < 0"
    by (rule mult_neg_pos)
  then have "py_sqrt (n * (bohr_radius_m c * 10 ^ 2) ^ 3 * pi) = Inl ValueError"
    by (simp add: py_sqrt_def mult.assoc)
  with assms(1) show False by (simp add: checkAndSetEnergyRange_def)
qed

subsection \<open>The constructor\<close>

lemma elements_are_list:
  "checkAndSetElements c v = Inr w \<Longrightarrow> \<exists>xs. w = PyList xs"
  by (cases v) (auto simp: checkAndSetElements_def checkAndSetInstance_def andThen_Inr_iff
      split: if_splits)

lemma init_Inr:
  assumes "init c a = Inr self"
  shows "\<exists>n z r er xs.
      checkAndSetDensitiesAndCharge c (electron_density a) (ion_charge a) (mass_density a) = Inr (n, z, r)
    \<and> checkAndSetEnergyRange c (energy_range a) n = Inr er
    \<and> self ''__elements'' = Some (PyList xs)
    \<and> self ''__electron_density'' = Some (PyFloat n)
    \<and> self ''__ion_charge'' = Some (PyFloat z)
    \<and> self ''__mass_density'' = Some (PyFloat r)
    \<and> self ''__energy_range'' = Some er
    \<and> self ''_input_data'' = None"
  using assms
  by (auto simp: init_def andThen_Inr_iff split: prod.splits dest: elements_are_list)

lemma elements_example:
  "checkAndSetElements example_constants example_elements = Inr example_elements"
  by (simp add: checkAndSetElements_def example_elements_def checkAndSetInstance_def
      check_element_def example_constants_def checkAndSetPositiveInteger_def checkAndSetInteger_def)

lemma init_example:
  assumes "checkAndSetDensitiesAndCharge example_constants ne zf rho = Inr (n, z, r)"
    and "checkAndSetEnergyRange example_constants er n = Inr window"
  shows "init example_constants
           (example_args \<lparr>electron_density := ne, ion_charge := zf, mass_density := rho,
                          energy_range := er\<rparr>)
         = Inr (example_instance n z r window)"
  using assms
  by (simp add: init_def example_args_def elements_example
      checkAndSetScatteringAngle_def checkAndSetElectronTemperature_def checkAndSetInstance_def
      checkAndSetIonTemperature_def checkAndSetDebyeTemperature_def checkAndSetBandGap_def
      checkAndSetModelSii_def checkAndSetModelSee_def checkAndSetModelSbf_def
      checkAndSetModelIPL_def checkAndSetModelMix_def checkAndSetLFC_def checkAndSetSbfNorm_def
      example_instance_def)

lemma example_solver:
  "checkAndSetDensitiesAndCharge example_constants None (Some 4) (Some 2)
     = Inr (example_density, 4, 2)"
  by (simp add: solver_no_density example_constants_def example_density_def)

lemma negative_solver:
  "checkAndSetDensitiesAndCharge example_constants None (Some (- 4)) (Some (- 2))
     = Inr (example_density, - 4, - 2)"
  by (simp add: solver_no_density example_constants_def example_density_def)

lemma example_window_accepted:
  "checkAndSetEnergyRange example_constants example_window example_density = Inr example_window"
  unfolding example_window_def
  by (rule energy_range_supplied) (simp_all add: example_constants_def example_density_def)

lemma example_window_derived:
  "checkAndSetEnergyRange example_constants PyNone example_density = Inr example_default_window"
  unfolding example_default_window_def
  by (rule energy_range_default) (simp_all add: example_constants_def example_density_def)

lemma example_construction:
  "init example_constants example_args = Inr (example_instance example_density 4 2 example_default_window)"
  using init_example [OF example_solver example_window_derived]
  by (simp add: example_args_def)

lemma supplied_construction:
  "init example_constants (example_args \<lparr>energy_range := example_window\<rparr>)
     = Inr (example_instance example_density 4 2 example_window)"
  using init_example [OF example_solver example_window_accepted]
  by (simp add: example_args_def)

lemma negative_construction:
  "init example_constants
     (example_args \<lparr>ion_charge := Some (- 4), mass_density := Some (- 2), energy_range := example_window\<rparr>)
     = Inr (example_instance example_density (- 4) (- 2) example_window)"
  using init_example [OF negative_solver example_window_accepted]
  by (simp add: example_args_def)

lemma solver_signs:
  assumes s: "checkAndSetDensitiesAndCharge c ne zf rho = Inr (n, z, r)"
    and NA: "0 < Avogadro c" and n: "0 \<le> n"
  shows "0 < n \<and> 0 < z * r"
proof -
  have le: "number_of_nones [ne, zf, rho] \<le> 1"
    using s by (auto simp: checkAndSetDensitiesAndCharge_def split: if_splits)
  have K: "0 < Avogadro c * 10 ^ 6" using NA by simp
  from nones_cases [OF le]
  consider (a) z' r' where "ne = None" "zf = Some z'" "rho = Some r'"
    | (b) n' r' where "ne = Some n'" "zf = None" "rho = Some r'"
    | (c) n' z' where "ne = Some n'" "zf = Some z'" "rho = None"
    | (d) n' z' r' where "ne = Some n'" "zf = Some z'" "rho = Some r'"
    by blast
  then show ?thesis
  proof cases
    case a
    with s have eq: "n = r * z * (Avogadro c * 10 ^ 6)" and nz: "r * z \<noteq> 0"
      by (auto simp: solver_no_density split: if_splits)
    from n eq K have "0 \<le> r * z" by (simp add: zero_le_mult_iff)
    with nz have "0 < r * z" by (simp add: less_le)
    with eq K show ?thesis by (simp add: mult.commute)
  next
    case b
    with s have eq: "z = n / (r * (Avogadro c * 10 ^ 6))" and nz: "n \<noteq> 0" "r \<noteq> 0"
      by (auto simp: solver_no_charge split: if_splits)
    from n nz have np: "0 < n" by simp
    have "z * r = n / (Avogadro c * 10 ^ 6)" using eq nz by simp
    with np K show ?thesis by simp
  next
    case c
    with s have eq: "r = n / (z * (Avogadro c * 10 ^ 6))" and nz: "n \<noteq> 0" "z \<noteq> 0"
      by (auto simp: solver_no_mass split: if_splits)
    from n nz have np: "0 < n" by simp
    have "z * r = n / (Avogadro c * 10 ^ 6)" using eq nz by simp
    with np K show ?thesis by simp
  next
    case d
    with s have nz: "r * z \<noteq> 0" and dev: "\<bar>n / (r * z * Avogadro c * 10 ^ 6) - 1\<bar> \<le> 0.0001"
      by (auto simp: solver_all_three split: if_splits)
    have "0 < q" if "\<bar>q - 1\<bar> \<le> 0.0001" for q :: real
      using that unfolding abs_le_iff by simp
    from this [OF dev] have q: "0 < n / (r * z * Avogadro c * 10 ^ 6)" .
    then have "n \<noteq> 0" by auto
    with n have np: "0 < n" by simp
    with q have "0 < r * z * Avogadro c * 10 ^ 6" by (simp add: zero_less_divide_iff)
    with NA have "0 < r * z" by (simp add: zero_less_mult_iff)
    with np show ?thesis by (simp add: mult.commute)
  qed
qed

subsection \<open>The deck\<close>

lemma deck_split:
  "deck = map Write deck_header
            @ WriteFmt ''PHOTON_ENERGY %4.3f'' [Item (Attr ''_input_data'') ''photon_energy'']
            # drop 5 deck"
  by (simp add: deck_def deck_header_def)

lemma length_deck_header: "length deck_header = 4"
  by (simp add: deck_header_def)

lemma run_deck_header:
  "run_deck fmt self (map Write hs @ ss) =
     (fst (run_deck fmt self ss), hs @ snd (run_deck fmt self ss))"
  by (induction hs) (simp_all add: case_prod_beta)

lemma photon_energy_fails:
  assumes "self ''_input_data'' = None"
  shows "exec_stmt fmt self (WriteFmt f [Item (Attr ''_input_data'') key]) = (Some AttributeError, [])"
  using assms by (simp add: getattr_def properties_def)

lemma run_deck_no_input_data:
  assumes "self ''_input_data'' = None"
  shows "run_deck fmt self deck = (Some AttributeError, deck_header)"
  by (subst deck_split) (simp only: run_deck_header run_deck.simps
      photon_energy_fails [of self, OF assms] prod.case option.case fst_conv snd_conv append_Nil2)

lemma keys_of_list_fails:
  assumes "self ''__elements'' = Some (PyList xs)"
  shows "exec_stmt fmt self (ForElementKeys f) = (Some AttributeError, [])"
  using assms by (simp add: getattr_def properties_def py_keys_def)

lemma run_deck_starts_with_header:
  "take 4 (snd (run_deck fmt self deck)) = deck_header"
  by (subst deck_split) (simp only: run_deck_header snd_conv take_append length_deck_header
      take_all order_refl diff_self_eq_0 take_0 append_Nil2)

lemma run_deck_fail:
  "run_deck fmt self ss = (Some e, lines) \<Longrightarrow>
     \<exists>k<length ss. fst (exec_stmt fmt self (ss ! k)) = Some e
        \<and> lines = concat (map (\<lambda>s. snd (exec_stmt fmt self s)) (take (Suc k) ss))"
proof (induction ss arbitrary: lines)
  case Nil
  then show ?case by simp
next
  case (Cons s ss)
  obtain r ls where x: "exec_stmt fmt self s = (r, ls)" by (cases "exec_stmt fmt self s")
  show ?case
  proof (cases r)
    case (Some e')
    with x Cons.prems have "e' = e" "lines = ls" by simp_all
    with x Some have "fst (exec_stmt fmt self ((s # ss) ! 0)) = Some e
        \<and> lines = concat (map (\<lambda>s. snd (exec_stmt fmt self s)) (take (Suc 0) (s # ss)))"
      by simp
    then show ?thesis by blast
  next
    case None
    obtain r' ls' where y: "run_deck fmt self ss = (r', ls')" by (cases "run_deck fmt self ss")
    with x None Cons.prems have r': "r' = Some e" and l: "lines = ls @ ls'" by simp_all
    from Cons.IH [OF y [unfolded r']] obtain k where k: "k < length ss"
      "fst (exec_stmt fmt self (ss ! k)) = Some e"
      "ls' = concat (map (\<lambda>s. snd (exec_stmt fmt self s)) (take (Suc k) ss))"
      by blast
    with x l have "Suc k < length (s # ss) \<and> fst (exec_stmt fmt self ((s # ss) ! Suc k)) = Some e
        \<and> lines = concat (map (\<lambda>s. snd (exec_stmt fmt self s)) (take (Suc (Suc k)) (s # ss)))"
      by simp
    then show ?thesis by blast
  qed
qed

lemma run_deck_example:
  "run_deck fmt ((example_instance n z r w)(''__tmp_dir'' \<mapsto> v)) deck
     = (Some AttributeError, deck_header)"
  by (rule run_deck_no_input_data) (simp add: example_instance_def)

section \<open>The claims\<close>








text \<open>
  Claim C4 fails on the code: \<^verbatim>\<open>checkAndSetEnergyRange\<close> checks only that the value is a
  dictionary, never its keys. A dictionary that has the key \<^verbatim>\<open>min\<close> alone is accepted and
  returned; a value that is no dictionary fails with \<^verbatim>\<open>TypeError\<close>. The function's
  documentation announces \<^verbatim>\<open>ValueError\<close> for a value of the wrong shape.
\<close>

theorem energy_range_keys_unchecked:
  "checkAndSetEnergyRange example_constants (PyDict [(''min'', PyFloat (- 1))]) example_density
     = Inr (PyDict [(''min'', PyFloat (- 1))])
   \<and> checkAndSetEnergyRange example_constants (PyFloat 5) example_density = Inl TypeError"
  by (simp add: checkAndSetEnergyRange_def example_constants_def example_density_def sqrt_guard
      checkAndSetInstance_def Let_def)

text \<open>
  Claim C5 fails on the code: the test of \<^verbatim>\<open>checkAndSetModelSii\<close> is inverted. A float
  is rejected, the non-negative \<open>1.5\<close> of the documentation among them, and a string that
  names no model is accepted.
\<close>

theorem model_Sii_inverted:
  "checkAndSetModelSii (PyFloat 1.5) = Inl ValueError
   \<and> checkAndSetModelSii (PyStr ''XYZ'') = Inr (PyStr ''XYZ'')"
  by (simp add: checkAndSetModelSii_def)

text \<open>
  Claim C6 fails on the code: for every instance the constructor returns, \<^verbatim>\<open>_initialize\<close>
  stops at its fifth statement with \<^verbatim>\<open>AttributeError\<close> (no \<^verbatim>\<open>_input_data\<close> is ever
  set), leaving the four header lines in the deck file and no target-species block. The
  loop over the species would fail as well, since the elements are a list and a list has no
  \<^verbatim>\<open>keys\<close>.
\<close>

theorem serializer_fails_before_species:
  assumes "init c a = Inr self"
  shows "initialize fmt (Inr d) self fs =
           (Some AttributeError, self(''__tmp_dir'' \<mapsto> PyStr d), fs(d @ ''/input.dat'' \<mapsto> deck_header))
         \<and> exec_stmt fmt (self(''__tmp_dir'' \<mapsto> PyStr d)) (ForElementKeys f) = (Some AttributeError, [])"
proof -
  from init_Inr [OF assms] obtain xs where
    "self ''_input_data'' = None" "self ''__elements'' = Some (PyList xs)" by blast
  then have a: "(self(''__tmp_dir'' \<mapsto> PyStr d)) ''_input_data'' = None"
    and b: "(self(''__tmp_dir'' \<mapsto> PyStr d)) ''__elements'' = Some (PyList xs)" by simp_all
  have "initialize fmt (Inr d) self fs =
           (Some AttributeError, self(''__tmp_dir'' \<mapsto> PyStr d), fs(d @ ''/input.dat'' \<mapsto> deck_header))"
    by (simp add: initialize_def Let_def
        run_deck_no_input_data [of "self(''__tmp_dir'' \<mapsto> PyStr d)", OF a])
  moreover have "exec_stmt fmt (self(''__tmp_dir'' \<mapsto> PyStr d)) (ForElementKeys f)
                   = (Some AttributeError, [])"
    by (rule keys_of_list_fails [of "self(''__tmp_dir'' \<mapsto> PyStr d)", OF b])
  ultimately show ?thesis by blast
qed

theorem serializer_fails_before_species_witness:
  "init example_constants (example_args \<lparr>energy_range := example_window\<rparr>)
     = Inr (example_instance example_density 4 2 example_window)
   \<and> initialize format_verbatim (Inr ''/tmp/xrs_a'')
         (example_instance example_density 4 2 example_window) Map.empty
     = (Some AttributeError,
        (example_instance example_density 4 2 example_window)(''__tmp_dir'' \<mapsto> PyStr ''/tmp/xrs_a''),
        [''/tmp/xrs_a/input.dat'' \<mapsto> deck_header])"
  using serializer_fails_before_species [OF supplied_construction,
      of format_verbatim "''/tmp/xrs_a''" Map.empty] supplied_construction
  by simp

text \<open>
  Claim C7, as stated, fails: serializing the instance built from the example arguments
  fails with \<^verbatim>\<open>AttributeError\<close>, which is neither a missing-value error of a validator nor
  a failure of the file system, and the deck file is left with its first four lines.
\<close>

theorem serializer_partial_deck_counterexample:
  "init example_constants example_args
     = Inr (example_instance example_density 4 2 example_default_window)
   \<and> fst (initialize format_verbatim (Inr ''/tmp/xrs_b'')
            (example_instance example_density 4 2 example_default_window) Map.empty)
     = Some AttributeError
   \<and> snd (snd (initialize format_verbatim (Inr ''/tmp/xrs_b'')
            (example_instance example_density 4 2 example_default_window) Map.empty))
         ''/tmp/xrs_b/input.dat''
     = Some deck_header"
  by (simp add: example_construction initialize_def Let_def
      run_deck_example)

text \<open>
  Claim C7, amended. \<^verbatim>\<open>_initialize\<close> validates nothing before it writes. When the scratch
  directory cannot be made, the failure of the file system propagates and nothing is
  written. Otherwise the deck file is created in the new directory and written statement by
  statement: it always starts with the four header lines, and when a statement fails, its
  exception propagates unchanged and the file holds exactly what the statements up to the
  failing one wrote.
\<close>

theorem serializer_not_atomic:
  "initialize fmt (Inl e) self fs = (Some e, self, fs)
   \<and> (\<exists>r lines.
        initialize fmt (Inr d) self fs =
          (r, self(''__tmp_dir'' \<mapsto> PyStr d), fs(d @ ''/input.dat'' \<mapsto> lines))
      \<and> take 4 lines = deck_header
      \<and> (\<forall>err. r = Some err \<longrightarrow>
           (\<exists>k<length deck.
              fst (exec_stmt fmt (self(''__tmp_dir'' \<mapsto> PyStr d)) (deck ! k)) = Some err
            \<and> lines = concat (map (\<lambda>s. snd (exec_stmt fmt (self(''__tmp_dir'' \<mapsto> PyStr d)) s))
                         (take (Suc k) deck)))))"
proof -
  obtain r lines where x: "run_deck fmt (self(''__tmp_dir'' \<mapsto> PyStr d)) deck = (r, lines)"
    by (cases "run_deck fmt (self(''__tmp_dir'' \<mapsto> PyStr d)) deck")
  have h: "take 4 lines = deck_header"
    using run_deck_starts_with_header [of fmt "self(''__tmp_dir'' \<mapsto> PyStr d)"] x by simp
  have f: "\<exists>k<length deck.
              fst (exec_stmt fmt (self(''__tmp_dir'' \<mapsto> PyStr d)) (deck ! k)) = Some err
            \<and> lines = concat (map (\<lambda>s. snd (exec_stmt fmt (self(''__tmp_dir'' \<mapsto> PyStr d)) s))
                         (take (Suc k) deck))" if "r = Some err" for err
    using run_deck_fail [of fmt "self(''__tmp_dir'' \<mapsto> PyStr d)" deck err lines] x that by simp
  have i: "initialize fmt (Inr d) self fs =
          (r, self(''__tmp_dir'' \<mapsto> PyStr d), fs(d @ ''/input.dat'' \<mapsto> lines))"
    by (simp add: initialize_def Let_def x)
  have "initialize fmt (Inl e) self fs = (Some e, self, fs)"
    by (simp add: initialize_def)
  with i h f show ?thesis by blast
qed

theorem serializer_not_atomic_witness:
  "initialize format_verbatim (Inl OSError)
       (example_instance example_density 4 2 example_window) Map.empty
     = (Some OSError, example_instance example_density 4 2 example_window, Map.empty)
   \<and> initialize format_verbatim (Inr ''/tmp/xrs_c'')
       (example_instance example_density 4 2 example_window) Map.empty
     = (Some AttributeError,
        (example_instance example_density 4 2 example_window)(''__tmp_dir'' \<mapsto> PyStr ''/tmp/xrs_c''),
        [''/tmp/xrs_c/input.dat'' \<mapsto> deck_header])
   \<and> take 4 deck_header = deck_header"
  using serializer_not_atomic [of format_verbatim OSError
      "example_instance example_density 4 2 example_window" Map.empty "''/tmp/xrs_c''"]
  by (simp add: initialize_def Let_def
      run_deck_example length_deck_header)

text \<open>
  Claim C8 fails on the code: the setters of electron density, ion charge and mass density
  call \<^verbatim>\<open>checkAndSetElectronDensity\<close>, \<^verbatim>\<open>checkAndSetIonCharge\<close> and
  \<^verbatim>\<open>checkAndSetMassDensity\<close>, which the module neither defines nor imports. Each setter
  raises \<^verbatim>\<open>NameError\<close> for every value and assigns nothing.
\<close>

theorem density_setters_undefined:
  "electron_density_setter c self value = Inl NameError
   \<and> ion_charge_setter c self value = Inl NameError
   \<and> mass_density_setter c self value = Inl NameError"
  by (simp add: electron_density_setter_def ion_charge_setter_def mass_density_setter_def
      assign_checked_def call_global_def module_functions_def)

text \<open>
  Claim C9, as stated, fails: with the electron density absent, ion charge \<open>-4\<close> and
  mass density \<open>-2\<close> the construction succeeds, and the instance holds the negative ion
  charge and mass density.
\<close>

theorem negative_triple_counterexample:
  "init example_constants
     (example_args \<lparr>ion_charge := Some (- 4), mass_density := Some (- 2), energy_range := example_window\<rparr>)
     = Inr (example_instance example_density (- 4) (- 2) example_window)
   \<and> getattr (example_instance example_density (- 4) (- 2) example_window) ''ion_charge''
       = Inr (PyFloat (- 4))
   \<and> getattr (example_instance example_density (- 4) (- 2) example_window) ''mass_density''
       = Inr (PyFloat (- 2))"
  by (simp add: negative_construction getattr_def properties_def example_instance_def)

text \<open>
  Claim C9, amended. For every instance the constructor returns, the electron density is
  strictly positive, and ion charge and mass density are both non-zero and of the same sign
  (their product is strictly positive). Avogadro's number and the Bohr radius are positive.
\<close>

theorem constructed_triple_signs:
  assumes i: "init c a = Inr self" and NA: "0 < Avogadro c" and a0: "0 < bohr_radius_m c"
  shows "\<exists>n z r. getattr self ''electron_density'' = Inr (PyFloat n)
           \<and> getattr self ''ion_charge'' = Inr (PyFloat z)
           \<and> getattr self ''mass_density'' = Inr (PyFloat r)
           \<and> 0 < n \<and> 0 < z * r"
proof -
  from init_Inr [OF i] obtain n z r er where
    s: "checkAndSetDensitiesAndCharge c (electron_density a) (ion_charge a) (mass_density a) = Inr (n, z, r)"
    and er: "checkAndSetEnergyRange c (energy_range a) n = Inr er"
    and g: "self ''__electron_density'' = Some (PyFloat n)"
       "self ''__ion_charge'' = Some (PyFloat z)"
       "self ''__mass_density'' = Some (PyFloat r)"
    by blast
  from energy_range_nonneg [OF er a0] have "0 \<le> n" .
  from solver_signs [OF s NA this] g show ?thesis
    by (auto simp: getattr_def properties_def)
qed

theorem constructed_triple_signs_witness:
  "init example_constants (example_args \<lparr>energy_range := example_window\<rparr>)
     = Inr (example_instance example_density 4 2 example_window)
   \<and> 0 < Avogadro example_constants \<and> 0 < bohr_radius_m example_constants
   \<and> getattr (example_instance example_density 4 2 example_window) ''electron_density''
       = Inr (PyFloat example_density)
   \<and> getattr (example_instance example_density 4 2 example_window) ''ion_charge'' = Inr (PyFloat 4)
   \<and> getattr (example_instance example_density 4 2 example_window) ''mass_density'' = Inr (PyFloat 2)
   \<and> 0 < example_density \<and> (0::real) < 4 * 2"
proof -
  have c: "0 < Avogadro example_constants" "0 < bohr_radius_m example_constants"
    by (simp_all add: example_constants_def)
  from constructed_triple_signs [OF supplied_construction c] supplied_construction c
  show ?thesis
    by (auto simp: getattr_def properties_def example_instance_def)
qed

text \<open>
  Claim C10. The scattering angle validator accepts exactly the angles \<open>x\<close> with
  \<open>0 < x \<le> 180\<close> and returns them unchanged: \<open>0\<close> fails with \<^verbatim>\<open>ValueError\<close>, \<open>180\<close> is
  returned, \<open>180.0001\<close> fails with \<^verbatim>\<open>ValueError\<close>, and an absent angle fails with
  \<^verbatim>\<open>RuntimeError\<close>. (In Python 2 the statement \<^verbatim>\<open>raise (ValueError, "...")\<close> raises the
  first item of the tuple.)
\<close>

theorem scattering_angle_range:
  "checkAndSetScatteringAngle PyNone = Inl RuntimeError
   \<and> checkAndSetScatteringAngle (PyFloat 0) = Inl ValueError
   \<and> checkAndSetScatteringAngle (PyFloat 180) = Inr (PyFloat 180)
   \<and> checkAndSetScatteringAngle (PyFloat 180.0001) = Inl ValueError
   \<and> checkAndSetScatteringAngle (PyFloat x) =
       (if 0 < x \<and> x \<le> 180 then Inr (PyFloat x) else Inl ValueError)"
  by (auto simp: checkAndSetScatteringAngle_def)

theorem scattering_angle_range_witness:
  "checkAndSetScatteringAngle (PyFloat 90) = Inr (PyFloat 90)"
  using scattering_angle_range [of 90] by simp

end
